theory Spec2Isabelle
  imports Main
begin

section \<open>Data model of \<^verbatim>\<open>src/main.py\<close>\<close>

text \<open>
  The service keeps one process-wide dictionary \<^verbatim>\<open>VECTOR_STORES\<close> from store id to a
  metadata dictionary with the keys name, collection, dimension, distance and files; files
  maps a file id to a dictionary with the keys filename and pages. Dictionaries are maps,
  the metadata dictionaries are records.

  \<^verbatim>\<open>rest.Distance\<close> is the vector database client's enumeration of metrics. Its members
  are non-empty strings, so every member is truthy in Python.
\<close>

datatype Distance = Cosine | Euclid | Dot | Manhattan

record file_meta =
  filename :: string
  pages :: nat

record store_meta =
  name :: string
  collection :: string
  dimension :: int
  distance :: Distance
  files :: "string \<rightharpoonup> file_meta"

type_synonym registry = "string \<rightharpoonup> store_meta"

text \<open>
  \<^verbatim>\<open>raise HTTPException(status_code=..., detail=...)\<close> is the only way an endpoint fails
  in the modelled paths; it is the left injection of every endpoint's result.
\<close>

datatype http_error = HTTPException nat string

text \<open>The request bodies (pydantic models); an \<^verbatim>\<open>Optional\<close> field is an option.\<close>

record CreateVectorStoreRequest =
  create_name :: string
  create_dimension :: int
  create_distance :: Distance

record UpdateVectorStoreRequest =
  update_name :: "string option"
  update_distance :: "Distance option"

record QueryRequest =
  query :: string
  top_k :: int

text \<open>
  A point handed to the vector database: \<^verbatim>\<open>PointStruct(id, vector, payload={"file", "page"})\<close>.
  The embedding vector is a list of floats whose values the service never inspects; it is
  the type parameter \<open>'v\<close>.
\<close>

record 'v PointStruct =
  point_id :: string
  vector :: 'v
  payload_file :: string
  payload_page :: nat

text \<open>
  The vector database is an external service. What the service does to it is the sequence
  of client calls it issues, kept in call order; a failed call is still in the sequence.
\<close>

datatype 'v qdrant_call =
    RecreateCollection string int Distance
  | CreatePayloadIndex string string string
  | DeleteCollection string
  | Upsert string "'v PointStruct list"
  | DeleteByFile string string
  | Search string 'v int

text \<open>
  The state an endpoint runs in: the registry and the calls issued to the vector database
  so far. Every endpoint returns its result together with the state it leaves behind.
\<close>

record 'v state =
  VECTOR_STORES :: registry
  qdrant_calls :: "'v qdrant_call list"

definition call :: "'v qdrant_call \<Rightarrow> 'v state \<Rightarrow> 'v state" where
  "call c s = s\<lparr>qdrant_calls := qdrant_calls s @ [c]\<rparr>"

section \<open>Store endpoints\<close>

text \<open>
  \<^verbatim>\<open>create_vector_store(req)\<close>. The arguments after the request are what the outside world
  answers during the call: the identifier \<^verbatim>\<open>uuid.uuid4()\<close> draws, and whether
  \<^verbatim>\<open>recreate_collection\<close> and \<^verbatim>\<open>create_payload_index\<close> return (\<open>True\<close>) or raise.
  Both calls sit in one \<^verbatim>\<open>try\<close> whose handler raises the 500; the registry is written
  after both returned.
\<close>

definition create_vector_store ::
  "CreateVectorStoreRequest \<Rightarrow> string \<Rightarrow> bool \<Rightarrow> bool \<Rightarrow> 'v state
    \<Rightarrow> (http_error + string \<times> string) \<times> 'v state" where
  "create_vector_store req store_id recreate_ok index_ok s =
    (let coll_name = ''vs_'' @ store_id;
         s1 = call (RecreateCollection coll_name (create_dimension req) (create_distance req)) s
     in if \<not> recreate_ok
        then (Inl (HTTPException 500 ''Failed to create vector store''), s1)
        else
          let s2 = call (CreatePayloadIndex coll_name ''file'' ''keyword'') s1
          in if \<not> index_ok
             then (Inl (HTTPException 500 ''Failed to create vector store''), s2)
             else
               (Inr (store_id, create_name req),
                s2\<lparr>VECTOR_STORES := (VECTOR_STORES s2)(store_id \<mapsto>
                   \<lparr>name = create_name req, collection = coll_name,
                    dimension = create_dimension req, distance = create_distance req,
                    files = Map.empty\<rparr>)\<rparr>))"


text \<open>
  \<^verbatim>\<open>update_vector_store(store_id, req)\<close>. \<^verbatim>\<open>meta\<close> is the dictionary the registry holds,
  so \<^verbatim>\<open>meta["name"] = req.name\<close> changes the registry at once, before any call to the
  vector database. \<^verbatim>\<open>if req.name\<close> is Python truthiness: \<^verbatim>\<open>None\<close> and the empty string
  both skip the assignment (\<open>truthy_str\<close> is the truthiness of a string).
  \<^verbatim>\<open>if req.distance and req.distance != meta["distance"]\<close> guards the recreation;
  \<open>recreate_ok\<close> and \<open>index_ok\<close> are the outcomes of the two calls.
\<close>

definition truthy_str :: "string \<Rightarrow> bool" where
  "truthy_str t = (t \<noteq> [])"

definition set_meta :: "string \<Rightarrow> store_meta \<Rightarrow> 'v state \<Rightarrow> 'v state" where
  "set_meta store_id meta s = s\<lparr>VECTOR_STORES := (VECTOR_STORES s)(store_id \<mapsto> meta)\<rparr>"

definition update_vector_store ::
  "string \<Rightarrow> UpdateVectorStoreRequest \<Rightarrow> bool \<Rightarrow> bool \<Rightarrow> 'v state
    \<Rightarrow> (http_error + string \<times> store_meta) \<times> 'v state" where
  "update_vector_store store_id req recreate_ok index_ok s =
    (case VECTOR_STORES s store_id of
       None \<Rightarrow> (Inl (HTTPException 404 ''Vector store not found''), s)
     | Some meta0 \<Rightarrow>
        let meta1 = (case update_name req of
                       None \<Rightarrow> meta0
                     | Some n \<Rightarrow> if truthy_str n then meta0\<lparr>name := n\<rparr> else meta0);
            s1 = set_meta store_id meta1 s
        in (case update_distance req of
              None \<Rightarrow> (Inr (store_id, meta1), s1)
            | Some d \<Rightarrow>
               if d = distance meta1 then (Inr (store_id, meta1), s1)
               else
                 let s2 = call (RecreateCollection (collection meta1) (dimension meta1) d) s1
                 in if \<not> recreate_ok
                    then (Inl (HTTPException 500 ''Failed to update vector store''), s2)
                    else
                      let s3 = call (CreatePayloadIndex (collection meta1) ''file'' ''keyword'') s2
                      in if \<not> index_ok
                         then (Inl (HTTPException 500 ''Failed to update vector store''), s3)
                         else
                           let meta2 = meta1\<lparr>distance := d\<rparr>
                           in (Inr (store_id, meta2), set_meta store_id meta2 s3)))"

text \<open>
  \<^verbatim>\<open>delete_vector_store(store_id)\<close>. The first statement is
  \<^verbatim>\<open>VECTOR_STORES.pop(store_id, None)\<close>: the entry leaves the registry before the
  collection is dropped. \<open>drop_ok\<close> is the outcome of \<^verbatim>\<open>delete_collection\<close>.
\<close>

definition delete_vector_store ::
  "string \<Rightarrow> bool \<Rightarrow> 'v state \<Rightarrow> (http_error + string) \<times> 'v state" where
  "delete_vector_store store_id drop_ok s =
    (case VECTOR_STORES s store_id of
       None \<Rightarrow> (Inl (HTTPException 404 ''Vector store not found''), s)
     | Some meta \<Rightarrow>
        let s1 = s\<lparr>VECTOR_STORES := (VECTOR_STORES s)(store_id := None)\<rparr>;
            s2 = call (DeleteCollection (collection meta)) s1
        in if drop_ok then (Inr ''deleted'', s2)
           else (Inl (HTTPException 500 ''Failed to delete vector store''), s2))"

text \<open>
  \<^verbatim>\<open>delete_file(store_id, file_id)\<close>: the filtered delete comes first, the file record
  is removed after it returned. \<open>delete_ok\<close> is the outcome of \<^verbatim>\<open>qdrant.delete\<close>.
\<close>

definition delete_file ::
  "string \<Rightarrow> string \<Rightarrow> bool \<Rightarrow> 'v state \<Rightarrow> (http_error + string) \<times> 'v state" where
  "delete_file store_id file_id delete_ok s =
    (case VECTOR_STORES s store_id of
       None \<Rightarrow> (Inl (HTTPException 404 ''File not found''), s)
     | Some meta \<Rightarrow>
        (case files meta file_id of
           None \<Rightarrow> (Inl (HTTPException 404 ''File not found''), s)
         | Some fm \<Rightarrow>
            let s1 = call (DeleteByFile (collection meta) (filename fm)) s
            in if \<not> delete_ok
               then (Inl (HTTPException 500 ''Failed to delete file vectors''), s1)
               else (Inr ''deleted'',
                     set_meta store_id (meta\<lparr>files := (files meta)(file_id := None)\<rparr>) s1)))"

section \<open>Normalising the parser's response\<close>

text \<open>
  The parser answers with a JSON object. The model types it as the service reads it: an
  optional list \<^verbatim>\<open>elements\<close> of objects with an optional integer \<^verbatim>\<open>page\<close> and an optional
  object \<^verbatim>\<open>content\<close>, and an optional top-level \<^verbatim>\<open>content\<close>; a content object has optional
  strings \<^verbatim>\<open>html\<close> and \<^verbatim>\<open>text\<close>. \<open>None\<close> is a key that is absent or \<^verbatim>\<open>null\<close> (for
  \<^verbatim>\<open>elements\<close> also a value that is not a list). A response of any other shape makes
  the source raise an exception its handlers do not catch; such responses are outside
  the model.
\<close>

record content_obj =
  content_html :: "string option"
  content_text :: "string option"

record element =
  el_page :: "int option"
  el_content :: "content_obj option"

record json_resp =
  elements :: "element list option"
  content :: "content_obj option"

text \<open>\<^verbatim>\<open>sep.join(xs)\<close> on strings.\<close>

fun join :: "string \<Rightarrow> string list \<Rightarrow> string" where
  "join sep [] = []"
| "join sep [x] = x"
| "join sep (x # y # ys) = x @ sep @ join sep (y # ys)"

text \<open>
  \<^verbatim>\<open>pages_map\<close> is a dictionary from page number to a list of strings; it is an association
  list in insertion order with one entry per key.
  \<^verbatim>\<open>pages_map.setdefault(pg, []).append(html)\<close>:
\<close>

fun setdefault_append ::
  "(int \<times> string list) list \<Rightarrow> int \<Rightarrow> string \<Rightarrow> (int \<times> string list) list" where
  "setdefault_append [] pg h = [(pg, [h])]"
| "setdefault_append ((k, v) # m) pg h =
     (if k = pg then (k, v @ [h]) # m else (k, v) # setdefault_append m pg h)"

text \<open>\<^verbatim>\<open>el.get("page", 1)\<close> and \<^verbatim>\<open>el.get("content", {}).get("html", "")\<close>.\<close>

definition get_page :: "element \<Rightarrow> int" where
  "get_page el = (case el_page el of None \<Rightarrow> 1 | Some pg \<Rightarrow> pg)"

definition get_html :: "element \<Rightarrow> string" where
  "get_html el =
     (case el_content el of
        None \<Rightarrow> []
      | Some c \<Rightarrow> (case content_html c of None \<Rightarrow> [] | Some h \<Rightarrow> h))"

text \<open>The loop \<^verbatim>\<open>for el in elements\<close>, with \<^verbatim>\<open>pages_map\<close> as the loop state.\<close>

fun elements_loop ::
  "(int \<times> string list) list \<Rightarrow> element list \<Rightarrow> (int \<times> string list) list" where
  "elements_loop pages_map [] = pages_map"
| "elements_loop pages_map (el # els) =
     (let pg = get_page el; h = get_html el
      in if truthy_str h then elements_loop (setdefault_append pages_map pg h) els
         else elements_loop pages_map els)"

text \<open>
  \<^verbatim>\<open>pages_map[p]\<close> for \<^verbatim>\<open>p in sorted(pages_map)\<close>: \<open>p\<close> is a key, so the lookup cannot
  raise; the empty list stands for the branch that is never taken.
\<close>

definition getitem :: "(int \<times> string list) list \<Rightarrow> int \<Rightarrow> string list" where
  "getitem m p = (case map_of m p of None \<Rightarrow> [] | Some v \<Rightarrow> v)"

definition newline :: string where
  "newline = [CHR 0x0A]"

text \<open>
  The body of the \<^verbatim>\<open>try\<close> from \<^verbatim>\<open>elements = json_resp.get("elements")\<close> to the list
  \<^verbatim>\<open>pages\<close>, before the emptiness check.
\<close>

definition normalize_pages :: "json_resp \<Rightarrow> string list" where
  "normalize_pages j =
    (case elements j of
       Some (el # els) \<Rightarrow>
         (let pages_map = elements_loop [] (el # els)
          in map (\<lambda>p. join newline (getitem pages_map p)) (sort (map fst pages_map)))
     | _ \<Rightarrow>
         (let html_or_text =
                (case content j of
                   None \<Rightarrow> []
                 | Some c \<Rightarrow>
                     (case content_html c of
                        Some h \<Rightarrow> if truthy_str h then h
                                  else (case content_text c of None \<Rightarrow> [] | Some t \<Rightarrow> t)
                      | None \<Rightarrow> (case content_text c of None \<Rightarrow> [] | Some t \<Rightarrow> t)))
          in if truthy_str html_or_text then [html_or_text] else []))"

text \<open>
  What the parser call produces: \<^verbatim>\<open>http_client.post\<close> or \<^verbatim>\<open>raise_for_status\<close> raising
  an \<^verbatim>\<open>httpx.HTTPError\<close>, \<^verbatim>\<open>dp_resp.json()\<close> raising a \<^verbatim>\<open>ValueError\<close>, or the decoded
  object. \<open>parse_document\<close> is the whole \<^verbatim>\<open>try\<close> body; both exceptions it can end with
  are caught by the one handler of \<open>upload_file\<close>.
\<close>

datatype dp_result = DpHTTPError | DpJSONDecodeError | DpJson json_resp

datatype py_exception = HTTPError | ValueError

definition parse_document :: "dp_result \<Rightarrow> py_exception + string list" where
  "parse_document r =
    (case r of
       DpHTTPError \<Rightarrow> Inl HTTPError
     | DpJSONDecodeError \<Rightarrow> Inl ValueError
     | DpJson j \<Rightarrow>
         (let pgs = normalize_pages j in if pgs = [] then Inl ValueError else Inr pgs))"

section \<open>Ingestion and query\<close>

text \<open>
  What the outside world answers during one \<^verbatim>\<open>upload_file\<close>: the bytes read from the
  upload (\<open>None\<close>: \<^verbatim>\<open>file.file.read()\<close> raised), the parser's answer, the embedding call
  for the page with a given index and text (\<open>None\<close>: anything in that \<^verbatim>\<open>try\<close> raised), the
  identifier drawn for that page's point, whether \<^verbatim>\<open>qdrant.upsert\<close> returns, and the
  identifier drawn for the file.
\<close>

record 'v upload_env =
  file_read :: "string option"
  dp_response :: dp_result
  embed :: "nat \<Rightarrow> string \<Rightarrow> 'v option"
  point_uuid :: "nat \<Rightarrow> string"
  upsert_ok :: bool
  file_uuid :: string

text \<open>
  The loop \<^verbatim>\<open>for idx, text in enumerate(pages)\<close> with \<^verbatim>\<open>points\<close> as the loop state:
  a failed embedding is \<^verbatim>\<open>continue\<close>, a successful one appends a point.
\<close>

fun embed_loop ::
  "'v upload_env \<Rightarrow> string \<Rightarrow> 'v PointStruct list \<Rightarrow> nat \<Rightarrow> string list
    \<Rightarrow> 'v PointStruct list" where
  "embed_loop env fname points idx [] = points"
| "embed_loop env fname points idx (t # ts) =
     (case embed env idx t of
        None \<Rightarrow> embed_loop env fname points (Suc idx) ts
      | Some vec \<Rightarrow>
          embed_loop env fname
            (points @ [\<lparr>point_id = point_uuid env idx, vector = vec,
                        payload_file = fname, payload_page = idx\<rparr>])
            (Suc idx) ts)"

definition upload_file ::
  "string \<Rightarrow> string \<Rightarrow> 'v upload_env \<Rightarrow> 'v state
    \<Rightarrow> (http_error + string \<times> nat) \<times> 'v state" where
  "upload_file store_id fname env s =
    (case VECTOR_STORES s store_id of
       None \<Rightarrow> (Inl (HTTPException 404 ''Vector store not found''), s)
     | Some meta \<Rightarrow>
        (case file_read env of
           None \<Rightarrow> (Inl (HTTPException 400 ''Invalid file upload''), s)
         | Some bytes \<Rightarrow>
            (case parse_document (dp_response env) of
               Inl e \<Rightarrow> (Inl (HTTPException 500 ''Document parsing failed''), s)
             | Inr pgs \<Rightarrow>
                let points = embed_loop env fname [] 0 pgs
                in if points = []
                   then (Inl (HTTPException 500 ''No embeddings generated''), s)
                   else
                     let s1 = call (Upsert (collection meta) points) s
                     in if \<not> upsert_ok env
                        then (Inl (HTTPException 500 ''Failed to store embeddings''), s1)
                        else
                          let file_id = file_uuid env
                          in (Inr (file_id, length pgs),
                              set_meta store_id
                                (meta\<lparr>files := (files meta)(file_id \<mapsto>
                                   \<lparr>filename = fname, pages = length pgs\<rparr>)\<rparr>) s1))))"

text \<open>
  \<^verbatim>\<open>query_vectors(store_id, req)\<close>. \<open>q_embed\<close> is the query embedding (\<open>None\<close>: the
  \<^verbatim>\<open>try\<close> raised), \<open>search_result\<close> the hits \<^verbatim>\<open>qdrant.search\<close> returns (\<open>None\<close>: it
  raised). A hit has an id, a score and a payload; the score is a float the service
  passes on unread, the type parameter \<open>'c\<close>.
\<close>

record 'c ScoredPoint =
  hit_id :: string
  hit_score :: 'c
  hit_payload :: "string \<times> nat"

definition query_vectors ::
  "string \<Rightarrow> QueryRequest \<Rightarrow> 'v option \<Rightarrow> 'c ScoredPoint list option \<Rightarrow> 'v state
    \<Rightarrow> (http_error + (string \<times> 'c \<times> string \<times> nat) list) \<times> 'v state" where
  "query_vectors store_id req q_embed search_result s =
    (case VECTOR_STORES s store_id of
       None \<Rightarrow> (Inl (HTTPException 404 ''Vector store not found''), s)
     | Some meta \<Rightarrow>
        (case q_embed of
           None \<Rightarrow> (Inl (HTTPException 500 ''Failed to embed query''), s)
         | Some q_vec \<Rightarrow>
            let s1 = call (Search (collection meta) q_vec (top_k req)) s
            in (case search_result of
                  None \<Rightarrow> (Inl (HTTPException 500 ''Search operation failed''), s1)
                | Some hits \<Rightarrow>
                    (Inr (map (\<lambda>h. (hit_id h, hit_score h, hit_payload h)) hits), s1))))"

section \<open>The normalisation policy in the specification's words\<close>



section \<open>Example inputs\<close>

text \<open>
  A registry with one store, parser answers, and an upload environment with the parser's
  answer, the embedding outcomes and the upsert outcome left open, used to evaluate the
  endpoints on concrete inputs.
\<close>

definition one_store :: "nat state" where
  "one_store =
     \<lparr>VECTOR_STORES = [''s1'' \<mapsto> \<lparr>name = ''docs'', collection = ''vs_s1'', dimension = 4,
                                   distance = Cosine, files = Map.empty\<rparr>],
      qdrant_calls = []\<rparr>"

definition two_page_response :: json_resp where
  "two_page_response =
     \<lparr>elements = Some
        [\<lparr>el_page = Some 1,
          el_content = Some \<lparr>content_html = Some ''A'', content_text = None\<rparr>\<rparr>,
         \<lparr>el_page = Some 2,
          el_content = Some \<lparr>content_html = Some ''B'', content_text = None\<rparr>\<rparr>],
      content = None\<rparr>"





definition example_env :: "dp_result \<Rightarrow> (nat \<Rightarrow> string \<Rightarrow> nat option) \<Rightarrow> bool \<Rightarrow> nat upload_env" where
  "example_env dp emb ok =
     \<lparr>file_read = Some ''%PDF'',
      dp_response = dp,
      embed = emb,
      point_uuid = (\<lambda>idx. if idx = 0 then ''p0'' else ''p1''),
      upsert_ok = ok,
      file_uuid = ''f1''\<rparr>"

text \<open>Embedding outcomes: the call for page 0 fails and every other one returns; all fail.\<close>

definition page_0_fails :: "nat \<Rightarrow> string \<Rightarrow> nat option" where
  "page_0_fails idx t = (if idx = 0 then None else Some 7)"


section \<open>Creating and reading a store\<close>

text \<open>
  The status codes and details of the source stand for the error kinds of the
  specification: a failure of the vector database is the 500 whose detail names the
  operation that failed.
\<close>

text \<open>
  C6. If creating the backing collection or its payload index fails, create fails with the
  500 ``Failed to create vector store'' and the registry is exactly what it was: no entry
  is recorded.
\<close>

theorem create_failure_registers_nothing:
  assumes "\<not> (recreate_ok \<and> index_ok)"
  shows "fst (create_vector_store req store_id recreate_ok index_ok s)
           = Inl (HTTPException 500 ''Failed to create vector store'')
       \<and> VECTOR_STORES (snd (create_vector_store req store_id recreate_ok index_ok s))
           = VECTOR_STORES s"
  using assms by (auto simp: create_vector_store_def call_def Let_def)

theorem create_failure_registers_nothing_witness:
  "fst (create_vector_store \<lparr>create_name = ''docs'', create_dimension = 4, create_distance = Cosine\<rparr>
          ''u1'' True False (\<lparr>VECTOR_STORES = Map.empty, qdrant_calls = []\<rparr> :: nat state))
     = Inl (HTTPException 500 ''Failed to create vector store'')
   \<and> VECTOR_STORES (snd (create_vector_store
          \<lparr>create_name = ''docs'', create_dimension = 4, create_distance = Cosine\<rparr>
          ''u1'' True False (\<lparr>VECTOR_STORES = Map.empty, qdrant_calls = []\<rparr> :: nat state)))
     = Map.empty"
  using create_failure_registers_nothing [where recreate_ok = True and index_ok = False
     and req = "\<lparr>create_name = ''docs'', create_dimension = 4, create_distance = Cosine\<rparr>"
     and store_id = "''u1''"
     and s = "\<lparr>VECTOR_STORES = Map.empty, qdrant_calls = []\<rparr> :: nat state"]
  by simp



section \<open>Updating a store\<close>

text \<open>
  C9, as the source has it. For an existing store, a request with a non-empty new name
  and a distance other than the current one, whose \<^verbatim>\<open>recreate_collection\<close> call fails,
  ends in the 500 ``Failed to update vector store''; the registry entry then carries the
  new name and its old distance, and the one call issued is the failed recreation. The
  name has to be non-empty: \<^verbatim>\<open>if req.name\<close> skips an empty one.
\<close>

theorem update_failure_keeps_rename:
  assumes "VECTOR_STORES s store_id = Some meta"
      and "update_name req = Some n" and "n \<noteq> []"
      and "update_distance req = Some d" and "d \<noteq> distance meta"
  shows "update_vector_store store_id req False index_ok s
         = (Inl (HTTPException 500 ''Failed to update vector store''),
            s\<lparr>VECTOR_STORES := (VECTOR_STORES s)(store_id \<mapsto> meta\<lparr>name := n\<rparr>),
              qdrant_calls := qdrant_calls s
                 @ [RecreateCollection (collection meta) (dimension meta) d]\<rparr>)"
  using assms
  by (simp add: update_vector_store_def set_meta_def call_def truthy_str_def Let_def)

theorem update_failure_keeps_rename_witness:
  "update_vector_store ''s1'' \<lparr>update_name = Some ''papers'', update_distance = Some Dot\<rparr>
      False True
      (\<lparr>VECTOR_STORES = [''s1'' \<mapsto> \<lparr>name = ''docs'', collection = ''vs_s1'', dimension = 4,
                                    distance = Cosine, files = Map.empty\<rparr>],
        qdrant_calls = []\<rparr> :: nat state)
   = (Inl (HTTPException 500 ''Failed to update vector store''),
      \<lparr>VECTOR_STORES = [''s1'' \<mapsto> \<lparr>name = ''papers'', collection = ''vs_s1'', dimension = 4,
                                    distance = Cosine, files = Map.empty\<rparr>],
        qdrant_calls = [RecreateCollection ''vs_s1'' 4 Dot]\<rparr>)"
  using update_failure_keeps_rename [where
      s = "\<lparr>VECTOR_STORES = [''s1'' \<mapsto> \<lparr>name = ''docs'', collection = ''vs_s1'',
                dimension = 4, distance = Cosine, files = Map.empty\<rparr>],
            qdrant_calls = []\<rparr> :: nat state"
      and store_id = "''s1''"
      and meta = "\<lparr>name = ''docs'', collection = ''vs_s1'', dimension = 4,
                   distance = Cosine, files = Map.empty\<rparr>"
      and req = "\<lparr>update_name = Some ''papers'', update_distance = Some Dot\<rparr>"
      and n = "''papers''" and d = Dot and index_ok = True]
  by simp

text \<open>
  The claim as written fails for a request that supplies the empty string as the new
  name: with the store named ``docs'', the name \<^verbatim>\<open>""\<close>, the distance Dot against a
  current Cosine and a failing recreation, the request ends in the 500 and the registry
  still holds the name ``docs'', not the supplied one.
\<close>

theorem update_failure_empty_name_counterexample:
  "update_vector_store ''s1'' \<lparr>update_name = Some '''', update_distance = Some Dot\<rparr>
      False True
      (\<lparr>VECTOR_STORES = [''s1'' \<mapsto> \<lparr>name = ''docs'', collection = ''vs_s1'', dimension = 4,
                                    distance = Cosine, files = Map.empty\<rparr>],
        qdrant_calls = []\<rparr> :: nat state)
   = (Inl (HTTPException 500 ''Failed to update vector store''),
      \<lparr>VECTOR_STORES = [''s1'' \<mapsto> \<lparr>name = ''docs'', collection = ''vs_s1'', dimension = 4,
                                    distance = Cosine, files = Map.empty\<rparr>],
        qdrant_calls = [RecreateCollection ''vs_s1'' 4 Dot]\<rparr>)
   \<and> map_option name
        (VECTOR_STORES (snd (update_vector_store ''s1''
           \<lparr>update_name = Some '''', update_distance = Some Dot\<rparr> False True
           (\<lparr>VECTOR_STORES = [''s1'' \<mapsto> \<lparr>name = ''docs'', collection = ''vs_s1'',
                 dimension = 4, distance = Cosine, files = Map.empty\<rparr>],
             qdrant_calls = []\<rparr> :: nat state))) ''s1'')
      \<noteq> Some ''''"
  by (simp add: update_vector_store_def set_meta_def call_def truthy_str_def Let_def)

text \<open>
  C10, as the source has it. For an existing store, a request whose distance equals the
  current one issues no call to the vector database (the call sequence is unchanged, so
  the collection and its vectors are untouched) and succeeds; the registry entry keeps its
  collection, dimension, distance and files, and its name becomes the supplied name when
  that is non-empty and stays what it was when no name or the empty name is supplied.
\<close>

theorem update_same_distance:
  assumes ex: "VECTOR_STORES s store_id = Some meta"
      and same: "update_distance req = Some (distance meta)"
  shows "update_vector_store store_id req recreate_ok index_ok s
         = (Inr (store_id,
                 (case update_name req of
                    None \<Rightarrow> meta
                  | Some n \<Rightarrow> if n = [] then meta else meta\<lparr>name := n\<rparr>)),
            s\<lparr>VECTOR_STORES := (VECTOR_STORES s)(store_id \<mapsto>
                 (case update_name req of
                    None \<Rightarrow> meta
                  | Some n \<Rightarrow> if n = [] then meta else meta\<lparr>name := n\<rparr>))\<rparr>)"
proof (cases "update_name req")
  case None
  with ex same show ?thesis
    by (simp add: update_vector_store_def set_meta_def)
next
  case (Some n)
  show ?thesis
  proof (cases "n = []")
    case True
    with Some ex same show ?thesis
      by (simp add: update_vector_store_def set_meta_def truthy_str_def)
  next
    case False
    with Some ex same show ?thesis
      by (simp add: update_vector_store_def set_meta_def truthy_str_def Let_def)
  qed
qed

theorem update_same_distance_witness:
  "update_vector_store ''s1'' \<lparr>update_name = Some ''papers'', update_distance = Some Cosine\<rparr>
      True True
      (\<lparr>VECTOR_STORES = [''s1'' \<mapsto> \<lparr>name = ''docs'', collection = ''vs_s1'', dimension = 4,
                                    distance = Cosine, files = Map.empty\<rparr>],
        qdrant_calls = [Upsert ''vs_s1'' []]\<rparr> :: nat state)
   = (Inr (''s1'', \<lparr>name = ''papers'', collection = ''vs_s1'', dimension = 4,
                    distance = Cosine, files = Map.empty\<rparr>),
      \<lparr>VECTOR_STORES = [''s1'' \<mapsto> \<lparr>name = ''papers'', collection = ''vs_s1'', dimension = 4,
                                    distance = Cosine, files = Map.empty\<rparr>],
        qdrant_calls = [Upsert ''vs_s1'' []]\<rparr>)"
  using update_same_distance [where
      s = "\<lparr>VECTOR_STORES = [''s1'' \<mapsto> \<lparr>name = ''docs'', collection = ''vs_s1'',
                dimension = 4, distance = Cosine, files = Map.empty\<rparr>],
            qdrant_calls = [Upsert ''vs_s1'' []]\<rparr> :: nat state"
      and store_id = "''s1''"
      and meta = "\<lparr>name = ''docs'', collection = ''vs_s1'', dimension = 4,
                   distance = Cosine, files = Map.empty\<rparr>"
      and req = "\<lparr>update_name = Some ''papers'', update_distance = Some Cosine\<rparr>"
      and recreate_ok = True and index_ok = True]
  by simp

text \<open>
  The claim as written fails where the rename is requested with the empty string: with
  the store named ``docs'' and a request carrying the name \<^verbatim>\<open>""\<close> and the current
  distance, the request succeeds and the registry still holds the name ``docs''.
\<close>

theorem update_same_distance_empty_name_counterexample:
  "update_vector_store ''s1'' \<lparr>update_name = Some '''', update_distance = Some Cosine\<rparr>
      True True
      (\<lparr>VECTOR_STORES = [''s1'' \<mapsto> \<lparr>name = ''docs'', collection = ''vs_s1'', dimension = 4,
                                    distance = Cosine, files = Map.empty\<rparr>],
        qdrant_calls = []\<rparr> :: nat state)
   = (Inr (''s1'', \<lparr>name = ''docs'', collection = ''vs_s1'', dimension = 4,
                    distance = Cosine, files = Map.empty\<rparr>),
      \<lparr>VECTOR_STORES = [''s1'' \<mapsto> \<lparr>name = ''docs'', collection = ''vs_s1'', dimension = 4,
                                    distance = Cosine, files = Map.empty\<rparr>],
        qdrant_calls = []\<rparr>)
   \<and> map_option name
        (VECTOR_STORES (snd (update_vector_store ''s1''
           \<lparr>update_name = Some '''', update_distance = Some Cosine\<rparr> True True
           (\<lparr>VECTOR_STORES = [''s1'' \<mapsto> \<lparr>name = ''docs'', collection = ''vs_s1'',
                 dimension = 4, distance = Cosine, files = Map.empty\<rparr>],
             qdrant_calls = []\<rparr> :: nat state))) ''s1'')
      \<noteq> Some ''''"
  by (simp add: update_vector_store_def set_meta_def call_def truthy_str_def Let_def)

section \<open>Deleting a store\<close>

text \<open>
  C2. The claim is that a failed collection drop leaves the registry entry in place. The
  source removes the entry first (\<^verbatim>\<open>VECTOR_STORES.pop\<close>) and drops the collection
  afterwards: with the store ``s1'' registered and \<^verbatim>\<open>delete_collection\<close> raising, the
  request ends in the 500 ``Failed to delete vector store'' and the registry is empty.
\<close>

theorem delete_drop_failure_removes_entry:
  "delete_vector_store ''s1'' False
     (\<lparr>VECTOR_STORES = [''s1'' \<mapsto> \<lparr>name = ''docs'', collection = ''vs_s1'', dimension = 4,
                                   distance = Cosine, files = Map.empty\<rparr>],
       qdrant_calls = []\<rparr> :: nat state)
   = (Inl (HTTPException 500 ''Failed to delete vector store''),
      \<lparr>VECTOR_STORES = Map.empty, qdrant_calls = [DeleteCollection ''vs_s1'']\<rparr>)"
  by (simp add: delete_vector_store_def call_def Let_def)

text \<open>The same holds for every registered store, whatever its metadata.\<close>

lemma delete_failure_pops_entry:
  assumes "VECTOR_STORES s store_id = Some meta"
  shows "delete_vector_store store_id False s
         = (Inl (HTTPException 500 ''Failed to delete vector store''),
            s\<lparr>VECTOR_STORES := (VECTOR_STORES s)(store_id := None),
              qdrant_calls := qdrant_calls s @ [DeleteCollection (collection meta)]\<rparr>)"
  using assms by (simp add: delete_vector_store_def call_def Let_def)

text \<open>
  The sibling endpoint \<open>delete_file\<close> keeps the order the claim describes: when its
  filtered delete fails, the file record is still in the registry.
\<close>

lemma delete_file_failure_keeps_record:
  "VECTOR_STORES (snd (delete_file store_id file_id False s)) = VECTOR_STORES s"
  by (simp add: delete_file_def call_def Let_def split: option.splits)

section \<open>Querying\<close>

text \<open>
  C8. Whatever the request and whatever the embedding and the search answer, the registry
  after \<open>query_vectors\<close> is the registry before it: every store's name, dimension,
  distance, collection and files are untouched.
\<close>

theorem query_never_mutates_registry:
  "VECTOR_STORES (snd (query_vectors store_id req q_embed search_result s)) = VECTOR_STORES s"
  by (simp add: query_vectors_def call_def Let_def split: option.splits)

section \<open>Lemmas on the normalisation loop\<close>











section \<open>Lemmas on the embedding loop\<close>

text \<open>
  \<open>embed_loop\<close> appends to its accumulator; started empty at index 0 it yields one point
  per page whose embedding returned, in page order, carrying the page's index.
  \<open>upload_file_reached\<close> is the endpoint from the embedding loop on, for a request that
  got past the lookup, the read and the parse.
\<close>

lemma embed_loop_acc:
  "embed_loop env fname points idx ts = points @ embed_loop env fname [] idx ts"
proof (induction ts arbitrary: points idx)
  case Nil
  show ?case by simp
next
  case (Cons t ts)
  show ?case
  proof (cases "embed env idx t")
    case None
    then show ?thesis using Cons.IH [of points "Suc idx"] by simp
  next
    case (Some vec)
    then show ?thesis
      using Cons.IH [of "points @ [\<lparr>point_id = point_uuid env idx, vector = vec,
                          payload_file = fname, payload_page = idx\<rparr>]" "Suc idx"]
            Cons.IH [of "[\<lparr>point_id = point_uuid env idx, vector = vec,
                          payload_file = fname, payload_page = idx\<rparr>]" "Suc idx"]
      by simp
  qed
qed

lemma embed_loop_pages:
  "map payload_page (embed_loop env fname [] idx ts)
     = map fst (filter (\<lambda>(i, t). embed env i t \<noteq> None) (enumerate idx ts))"
proof (induction ts arbitrary: idx)
  case Nil
  show ?case by simp
next
  case (Cons t ts)
  show ?case
  proof (cases "embed env idx t")
    case None
    then show ?thesis using Cons.IH [of "Suc idx"] by simp
  next
    case (Some vec)
    then show ?thesis
      using Cons.IH [of "Suc idx"]
            embed_loop_acc [of env fname "[\<lparr>point_id = point_uuid env idx, vector = vec,
                          payload_file = fname, payload_page = idx\<rparr>]" "Suc idx" ts]
      by simp
  qed
qed

lemma enumerate_nth: "enumerate 0 xs = map (\<lambda>i. (i, xs ! i)) [0..<length xs]"
proof (rule nth_equalityI)
  show "length (enumerate 0 xs) = length (map (\<lambda>i. (i, xs ! i)) [0..<length xs])"
    by simp
next
  fix i assume "i < length (enumerate 0 xs)"
  then have "i < length xs" by simp
  then show "enumerate 0 xs ! i = map (\<lambda>i. (i, xs ! i)) [0..<length xs] ! i"
    by (simp add: nth_enumerate_eq)
qed

lemma embed_loop_page_indices:
  "map payload_page (embed_loop env fname [] 0 pgs)
     = filter (\<lambda>i. embed env i (pgs ! i) \<noteq> None) [0..<length pgs]"
  by (simp add: embed_loop_pages enumerate_nth filter_map o_def)

lemma embed_loop_length:
  "length (embed_loop env fname [] 0 pgs)
     = length pgs - length (filter (\<lambda>i. embed env i (pgs ! i) = None) [0..<length pgs])"
proof -
  have "length (embed_loop env fname [] 0 pgs)
          = length (filter (\<lambda>i. embed env i (pgs ! i) \<noteq> None) [0..<length pgs])"
    using embed_loop_page_indices [of env fname pgs, THEN arg_cong, of length] by simp
  moreover have "length (filter (\<lambda>i. embed env i (pgs ! i) = None) [0..<length pgs])
          + length (filter (\<lambda>i. embed env i (pgs ! i) \<noteq> None) [0..<length pgs])
          = length pgs"
    using sum_length_filter_compl [of "\<lambda>i. embed env i (pgs ! i) = None" "[0..<length pgs]"]
    by simp
  ultimately show ?thesis by simp
qed

lemma embed_loop_empty:
  "(embed_loop env fname [] 0 pgs = []) = (\<forall>i<length pgs. embed env i (pgs ! i) = None)"
proof -
  have "(embed_loop env fname [] 0 pgs = [])
          = (filter (\<lambda>i. embed env i (pgs ! i) \<noteq> None) [0..<length pgs] = [])"
    using embed_loop_page_indices [of env fname pgs, THEN arg_cong, of "\<lambda>xs. xs = []"]
    by simp
  also have "\<dots> = (\<forall>i<length pgs. embed env i (pgs ! i) = None)"
    by (auto simp: filter_empty_conv)
  finally show ?thesis .
qed


lemma upload_file_reached:
  assumes "VECTOR_STORES s store_id = Some meta"
      and "file_read env = Some bytes"
      and "parse_document (dp_response env) = Inr pgs"
  shows "upload_file store_id fname env s =
     (if embed_loop env fname [] 0 pgs = []
      then (Inl (HTTPException 500 ''No embeddings generated''), s)
      else if \<not> upsert_ok env
      then (Inl (HTTPException 500 ''Failed to store embeddings''),
            call (Upsert (collection meta) (embed_loop env fname [] 0 pgs)) s)
      else (Inr (file_uuid env, length pgs),
            set_meta store_id
              (meta\<lparr>files := (files meta)(file_uuid env \<mapsto>
                  \<lparr>filename = fname, pages = length pgs\<rparr>)\<rparr>)
              (call (Upsert (collection meta) (embed_loop env fname [] 0 pgs)) s)))"
  using assms by (simp add: upload_file_def Let_def)

section \<open>The example inputs, evaluated\<close>

lemma one_store_s1:
  "VECTOR_STORES one_store ''s1''
     = Some \<lparr>name = ''docs'', collection = ''vs_s1'', dimension = 4,
              distance = Cosine, files = Map.empty\<rparr>"
  by (simp add: one_store_def)

lemma example_env_read: "file_read (example_env dp emb ok) = Some ''%PDF''"
  by (simp add: example_env_def)

lemma two_page_normalize: "normalize_pages two_page_response = [''A'', ''B'']"
  by (simp add: two_page_response_def normalize_pages_def get_page_def get_html_def
        truthy_str_def getitem_def Let_def)

lemma two_page_parse:
  "parse_document (dp_response (example_env (DpJson two_page_response) emb ok))
     = Inr [''A'', ''B'']"
  by (simp add: example_env_def parse_document_def two_page_normalize)

lemma page_0_fails_points:
  "embed_loop (example_env dp page_0_fails ok) ''a.pdf'' [] 0 [''A'', ''B'']
     = [\<lparr>point_id = ''p1'', vector = 7, payload_file = ''a.pdf'', payload_page = 1\<rparr>]"
  by (simp add: example_env_def page_0_fails_def)

lemma page_0_fails_some:
  "\<exists>i<length [''A'', ''B''].
      embed (example_env dp page_0_fails ok) i ([''A'', ''B''] ! i) \<noteq> None"
  by (rule exI [of _ 1]) (simp add: example_env_def page_0_fails_def)



section \<open>Ingestion\<close>

text \<open>
  C1, as the source has it. The claim is that the returned page count and the recorded
  \<open>pages\<close> are the number of points upserted, \<open>n - k\<close>. The source returns and records
  \<^verbatim>\<open>len(pages)\<close>, the number of pages parsed: when \<open>k < n\<close> of the \<open>n\<close> embedding calls
  fail and the upsert returns, the response and the file record carry \<open>n\<close>, and the one
  upsert call carries \<open>n - k\<close> points.
\<close>

theorem ingest_records_parsed_page_count:
  assumes "VECTOR_STORES s store_id = Some meta"
      and "file_read env = Some bytes"
      and "parse_document (dp_response env) = Inr pgs"
      and "k = length (filter (\<lambda>i. embed env i (pgs ! i) = None) [0..<length pgs])"
      and "k < length pgs"
      and "upsert_ok env"
  shows "length (embed_loop env fname [] 0 pgs) = length pgs - k
       \<and> upload_file store_id fname env s
         = (Inr (file_uuid env, length pgs),
            s\<lparr>VECTOR_STORES := (VECTOR_STORES s)(store_id \<mapsto>
                 meta\<lparr>files := (files meta)(file_uuid env \<mapsto>
                        \<lparr>filename = fname, pages = length pgs\<rparr>)\<rparr>),
              qdrant_calls := qdrant_calls s
                 @ [Upsert (collection meta) (embed_loop env fname [] 0 pgs)]\<rparr>)"
proof -
  have len: "length (embed_loop env fname [] 0 pgs) = length pgs - k"
    using assms(4) by (simp add: embed_loop_length)
  then have "embed_loop env fname [] 0 pgs \<noteq> []"
    using assms(5) by auto
  then have "upload_file store_id fname env s
         = (Inr (file_uuid env, length pgs),
            set_meta store_id
              (meta\<lparr>files := (files meta)(file_uuid env \<mapsto>
                  \<lparr>filename = fname, pages = length pgs\<rparr>)\<rparr>)
              (call (Upsert (collection meta) (embed_loop env fname [] 0 pgs)) s))"
    using upload_file_reached [OF assms(1-3), of fname] assms(6) by simp
  then show ?thesis
    using len by (simp add: set_meta_def call_def)
qed

theorem ingest_records_parsed_page_count_witness:
  "length (embed_loop (example_env (DpJson two_page_response) page_0_fails True)
             ''a.pdf'' [] 0 [''A'', ''B'']) = 2 - 1
   \<and> fst (upload_file ''s1'' ''a.pdf''
            (example_env (DpJson two_page_response) page_0_fails True) one_store)
     = Inr (''f1'', 2)"
proof -
  have k: "(1::nat) = length (filter
              (\<lambda>i. embed (example_env (DpJson two_page_response) page_0_fails True) i
                      ([''A'', ''B''] ! i) = None)
              [0..<length [''A'', ''B'']])"
    by (simp add: example_env_def page_0_fails_def upt_rec)
  have lt: "(1::nat) < length [''A'', ''B'']"
    by simp
  have ok: "upsert_ok (example_env (DpJson two_page_response) page_0_fails True)"
    and fid: "file_uuid (example_env (DpJson two_page_response) page_0_fails True) = ''f1''"
    by (simp_all add: example_env_def)
  from ingest_records_parsed_page_count [OF one_store_s1 example_env_read two_page_parse k lt ok,
         where fname = "''a.pdf''"]
  show ?thesis
    unfolding fid by simp
qed

text \<open>
  The claim as written fails on two parsed pages of which the first is not embedded: the
  response and the file record say 2 pages, one point is upserted, and \<open>n - k\<close> is 1.
\<close>

theorem ingest_page_count_counterexample:
  "parse_document (dp_response (example_env (DpJson two_page_response) page_0_fails True))
     = Inr [''A'', ''B'']
   \<and> embed (example_env (DpJson two_page_response) page_0_fails True) 0 ''A'' = None
   \<and> embed (example_env (DpJson two_page_response) page_0_fails True) 1 ''B'' = Some 7
   \<and> upload_file ''s1'' ''a.pdf''
        (example_env (DpJson two_page_response) page_0_fails True) one_store
      = (Inr (''f1'', 2),
         \<lparr>VECTOR_STORES = [''s1'' \<mapsto> \<lparr>name = ''docs'', collection = ''vs_s1'', dimension = 4,
              distance = Cosine,
              files = [''f1'' \<mapsto> \<lparr>filename = ''a.pdf'', pages = 2\<rparr>]\<rparr>],
          qdrant_calls = [Upsert ''vs_s1''
              [\<lparr>point_id = ''p1'', vector = 7, payload_file = ''a.pdf'', payload_page = 1\<rparr>]]\<rparr>)
   \<and> (2::nat) \<noteq> 2 - 1"
proof -
  have up: "upload_file ''s1'' ''a.pdf''
        (example_env (DpJson two_page_response) page_0_fails True) one_store
      = (Inr (''f1'', 2),
         \<lparr>VECTOR_STORES = [''s1'' \<mapsto> \<lparr>name = ''docs'', collection = ''vs_s1'', dimension = 4,
              distance = Cosine,
              files = [''f1'' \<mapsto> \<lparr>filename = ''a.pdf'', pages = 2\<rparr>]\<rparr>],
          qdrant_calls = [Upsert ''vs_s1''
              [\<lparr>point_id = ''p1'', vector = 7, payload_file = ''a.pdf'', payload_page = 1\<rparr>]]\<rparr>)"
    unfolding upload_file_reached [OF one_store_s1 example_env_read two_page_parse]
              page_0_fails_points
    by (simp add: example_env_def set_meta_def call_def one_store_def numeral_2_eq_2)
  have e0: "embed (example_env (DpJson two_page_response) page_0_fails True) 0 ''A'' = None"
    and e1: "embed (example_env (DpJson two_page_response) page_0_fails True) 1 ''B'' = Some 7"
    by (simp_all add: example_env_def page_0_fails_def)
  from two_page_parse [of page_0_fails True] e0 e1 up show ?thesis by simp
qed

text \<open>
  C3. When the request reaches the upsert (the store exists, the upload is read, the
  parse yields pages and at least one page is embedded) and the upsert fails, the request
  ends in the 500 ``Failed to store embeddings'', the registry is what it was (no file
  record is added), and the failed upsert is the only call issued.
\<close>

theorem upsert_failure_records_nothing:
  assumes "VECTOR_STORES s store_id = Some meta"
      and "file_read env = Some bytes"
      and "parse_document (dp_response env) = Inr pgs"
      and "\<exists>i<length pgs. embed env i (pgs ! i) \<noteq> None"
      and "\<not> upsert_ok env"
  shows "upload_file store_id fname env s
         = (Inl (HTTPException 500 ''Failed to store embeddings''),
            s\<lparr>qdrant_calls := qdrant_calls s
                 @ [Upsert (collection meta) (embed_loop env fname [] 0 pgs)]\<rparr>)
       \<and> VECTOR_STORES (snd (upload_file store_id fname env s)) = VECTOR_STORES s"
proof -
  have "embed_loop env fname [] 0 pgs \<noteq> []"
    using assms(4) by (simp add: embed_loop_empty)
  then have "upload_file store_id fname env s
         = (Inl (HTTPException 500 ''Failed to store embeddings''),
            call (Upsert (collection meta) (embed_loop env fname [] 0 pgs)) s)"
    using upload_file_reached [OF assms(1-3), of fname] assms(5) by simp
  then show ?thesis by (simp add: call_def)
qed

theorem upsert_failure_records_nothing_witness:
  "upload_file ''s1'' ''a.pdf''
      (example_env (DpJson two_page_response) page_0_fails False) one_store
     = (Inl (HTTPException 500 ''Failed to store embeddings''),
        \<lparr>VECTOR_STORES = [''s1'' \<mapsto> \<lparr>name = ''docs'', collection = ''vs_s1'', dimension = 4,
                                      distance = Cosine, files = Map.empty\<rparr>],
         qdrant_calls = [Upsert ''vs_s1''
            [\<lparr>point_id = ''p1'', vector = 7, payload_file = ''a.pdf'', payload_page = 1\<rparr>]]\<rparr>)"
proof -
  have bad: "\<not> upsert_ok (example_env (DpJson two_page_response) page_0_fails False)"
    by (simp add: example_env_def)
  from upsert_failure_records_nothing [OF one_store_s1 example_env_read two_page_parse
         page_0_fails_some bad, where fname = "''a.pdf''"]
  show ?thesis
    unfolding page_0_fails_points by (simp add: one_store_def)
qed





end
